theory Spec2Isabelle
  imports Main "HOL-Library.AList" "HOL-Library.Word"
begin

section \<open>Values exchanged with the Unity bridge\<close>

text \<open>
  The two tools of \<^verbatim>\<open>UnityMcpServer/src/tools\<close> receive Python values and hand a
  dictionary to \<^verbatim>\<open>connection.send_command\<close>. A Python value of the kinds the signatures
  allow (\<^verbatim>\<open>Union[str, int, float, bool, list, dict]\<close>, and \<^verbatim>\<open>None\<close>) is a \<open>pyval\<close>.
  A float is carried as its IEEE 754 binary64 bit pattern: the tools never compute with it.
  A dictionary is an association list in insertion order, its keys strings.
  Strings are lists of code points below 256.
\<close>

datatype pyval =
    PNone
  | PBool bool
  | PInt int
  | PFloat "64 word"
  | PStr string
  | PList "pyval list"
  | PDict "(string \<times> pyval) list"

type_synonym params = "(string \<times> pyval) list"

text \<open>An exception raised inside the transport collaborator, with its message.\<close>

datatype py_exception = Exception string

text \<open>
  \<^verbatim>\<open>get_unity_connection().send_command(command, params)\<close> is the transport collaborator:
  it is a parameter of the tools below. It answers with a value or raises.
\<close>

type_synonym send_command = "string \<Rightarrow> params \<Rightarrow> py_exception + pyval"

text \<open>
  What one call of a tool does: the value it returns (or the exception that leaves it), and
  the commands it handed to the transport, in order.
\<close>

type_synonym dispatch = "(py_exception + pyval) \<times> (string \<times> params) list"

text \<open>An argument annotated \<^verbatim>\<open>Optional[str]\<close> or \<^verbatim>\<open>Optional[int]\<close>, as a Python value.\<close>

fun str_opt :: "string option \<Rightarrow> pyval" where
  "str_opt None = PNone"
| "str_opt (Some s) = PStr s"

fun int_opt :: "int option \<Rightarrow> pyval" where
  "int_opt None = PNone"
| "int_opt (Some i) = PInt i"

text \<open>Python's truth value of an optional string: \<^verbatim>\<open>None\<close> and \<^verbatim>\<open>""\<close> are false.\<close>

fun truthy :: "string option \<Rightarrow> bool" where
  "truthy None = False"
| "truthy (Some s) = (s \<noteq> [])"

text \<open>
  \<^verbatim>\<open>str.lower()\<close> on code points below 256: the letters A to Z, and the Latin-1
  capitals U+00C0 to U+00DE except the multiplication sign U+00D7, move up by 32.
\<close>

definition lower_char :: "char \<Rightarrow> char" where
  "lower_char c =
     (let n = (of_char c :: nat)
      in if (65 \<le> n \<and> n \<le> 90) \<or> (192 \<le> n \<and> n \<le> 222 \<and> n \<noteq> 215)
         then char_of (n + 32) else c)"

definition lower :: "string \<Rightarrow> string" where
  "lower s = map lower_char s"

section \<open>The Property Access tool\<close>

text \<open>The three action lists of \<^verbatim>\<open>modify_scriptable_object\<close>.\<close>

definition property_actions :: "string list" where
  "property_actions =
     [''get_property'', ''set_property'', ''list_array_elements'', ''inspect_array_detailed'',
      ''add_array_element'', ''remove_array_element'', ''set_array_element'']"

definition set_actions :: "string list" where
  "set_actions = [''set_property'', ''add_array_element'', ''set_array_element'']"

definition array_element_actions :: "string list" where
  "array_element_actions = [''remove_array_element'', ''set_array_element'']"

text \<open>The dictionary \<^verbatim>\<open>{"success": False, "message": message, "data": None}\<close>.\<close>

definition failure :: "string \<Rightarrow> pyval" where
  "failure message =
     PDict [(''success'', PBool False), (''message'', PStr message), (''data'', PNone)]"

text \<open>The f-string \<^verbatim>\<open>f"{field} is required for action '{action}'"\<close>.\<close>

definition required_for :: "string \<Rightarrow> string \<Rightarrow> string" where
  "required_for field action =
     field @ '' is required for action '' @ [CHR 0x27] @ action @ [CHR 0x27]"

text \<open>
  \<^verbatim>\<open>modify_scriptable_object(ctx, action, asset_path, property_name=None,
  property_value=None, property_type=None, index=None)\<close>, check by check in the order of the
  source. \<open>asset_path\<close> is optional here although it is annotated \<^verbatim>\<open>str\<close>: the first
  check, \<^verbatim>\<open>not asset_path\<close>, is the one that answers a missing one.
\<close>

definition modify_scriptable_object ::
  "send_command \<Rightarrow> string \<Rightarrow> string option \<Rightarrow> string option \<Rightarrow> pyval \<Rightarrow> string option \<Rightarrow>
   int option \<Rightarrow> dispatch" where
  "modify_scriptable_object send_command action asset_path property_name property_value
     property_type index =
     (if \<not> truthy asset_path then
        (Inr (failure ''asset_path is required''), [])
      else if action \<in> set property_actions \<and> \<not> truthy property_name then
        (Inr (failure (required_for ''property_name'' action)), [])
      else if action \<in> set set_actions \<and> property_value = PNone then
        (Inr (failure (required_for ''property_value'' action)), [])
      else if action \<in> set array_element_actions \<and> index = None then
        (Inr (failure (required_for ''index'' action)), [])
      else
        let params_dict = [(''action'', PStr (lower action)), (''asset_path'', str_opt asset_path)];
            params_dict = (if property_name \<noteq> None
              then AList.update ''property_name'' (str_opt property_name) params_dict
              else params_dict);
            params_dict = (if property_value \<noteq> PNone
              then AList.update ''property_value'' property_value params_dict
              else params_dict);
            params_dict = (if property_type \<noteq> None
              then AList.update ''property_type'' (str_opt property_type) params_dict
              else params_dict);
            params_dict = (if index \<noteq> None
              then AList.update ''index'' (int_opt index) params_dict
              else params_dict)
        in (send_command ''HandleModifyScriptableObject'' params_dict,
            [(''HandleModifyScriptableObject'', params_dict)]))"

section \<open>The Object Creation tool\<close>

text \<open>
  \<^verbatim>\<open>create_scriptable_object(ctx, action, name=None, subfolder=None, type_name=None,
  path=None)\<close>: it has no check of its own before the transport call.
\<close>

definition create_scriptable_object ::
  "send_command \<Rightarrow> string \<Rightarrow> string option \<Rightarrow> string option \<Rightarrow> string option \<Rightarrow>
   string option \<Rightarrow> dispatch" where
  "create_scriptable_object send_command action name subfolder type_name path =
     (let params_dict = [(''action'', PStr (lower action))];
          params_dict = (if name \<noteq> None
            then AList.update ''name'' (str_opt name) params_dict
            else params_dict);
          params_dict = (if subfolder \<noteq> None
            then AList.update ''subfolder'' (str_opt subfolder) params_dict
            else params_dict);
          params_dict = (if type_name \<noteq> None
            then AList.update ''type_name'' (str_opt type_name) params_dict
            else params_dict);
          params_dict = (if path \<noteq> None
            then AList.update ''path'' (str_opt path) params_dict
            else params_dict)
      in (send_command ''HandleCreateScriptableObject'' params_dict,
          [(''HandleCreateScriptableObject'', params_dict)]))"

section \<open>Test doubles for the transport\<close>

text \<open>
  Two transports to evaluate a dispatch on concrete arguments. The first answers every
  command with a success envelope echoing the command name and the parameters it was
  given; the second raises on every command, as a connection that cannot be opened does.
\<close>

definition echo_transport :: send_command where
  "echo_transport command params_dict =
     Inr (PDict [(''success'', PBool True), (''message'', PStr command),
                 (''data'', PDict params_dict)])"

definition refusing_transport :: send_command where
  "refusing_transport command params_dict = Inl (Exception ''Could not connect to Unity'')"

section \<open>What a dispatch does, check by check\<close>

text \<open>Lower-casing folds a mixed-case action name onto the lower-case one.\<close>

lemma lower_set_property: "lower ''Set_Property'' = ''set_property''"
  by code_simp

text \<open>
  A call of the Property Access tool that passes the four checks hands one command to the
  transport and returns its answer; the dictionary sent holds a key exactly for each
  argument that is not \<^verbatim>\<open>None\<close>.
\<close>

lemma modify_dispatch:
  assumes "truthy ap"
    and "action \<in> set property_actions \<longrightarrow> truthy pn"
    and "action \<in> set set_actions \<longrightarrow> pv \<noteq> PNone"
    and "action \<in> set array_element_actions \<longrightarrow> idx \<noteq> None"
  shows "\<exists>ps. modify_scriptable_object send action ap pn pv pt idx =
           (send ''HandleModifyScriptableObject'' ps, [(''HandleModifyScriptableObject'', ps)])
         \<and> map_of ps ''action'' = Some (PStr (lower action))
         \<and> map_of ps ''asset_path'' = Some (str_opt ap)
         \<and> map_of ps ''property_name'' = map_option PStr pn
         \<and> map_of ps ''property_value'' = (if pv = PNone then None else Some pv)
         \<and> map_of ps ''property_type'' = map_option PStr pt
         \<and> map_of ps ''index'' = map_option PInt idx"
  using assms
  by (cases pn; cases pt; cases idx; cases "pv = PNone")
     (simp_all add: modify_scriptable_object_def Let_def)

text \<open>The Object Creation tool always reaches the transport.\<close>

lemma create_dispatch:
  "\<exists>ps. create_scriptable_object send action n sf tn p =
           (send ''HandleCreateScriptableObject'' ps, [(''HandleCreateScriptableObject'', ps)])
         \<and> map_of ps ''action'' = Some (PStr (lower action))
         \<and> map_of ps ''name'' = map_option PStr n
         \<and> map_of ps ''subfolder'' = map_option PStr sf
         \<and> map_of ps ''type_name'' = map_option PStr tn
         \<and> map_of ps ''path'' = map_option PStr p"
  by (cases n; cases sf; cases tn; cases p)
     (simp_all add: create_scriptable_object_def Let_def)

text \<open>
  The same two facts with the whole dictionary pinned: every key's value, no key twice, and
  no key beyond those of the tool.
\<close>

lemma modify_dispatch_keys:
  assumes "truthy ap"
    and "action \<in> set property_actions \<longrightarrow> truthy pn"
    and "action \<in> set set_actions \<longrightarrow> pv \<noteq> PNone"
    and "action \<in> set array_element_actions \<longrightarrow> idx \<noteq> None"
  shows "\<exists>ps. modify_scriptable_object send action ap pn pv pt idx =
           (send ''HandleModifyScriptableObject'' ps, [(''HandleModifyScriptableObject'', ps)])
         \<and> map_of ps ''action'' = Some (PStr (lower action))
         \<and> map_of ps ''asset_path'' = Some (str_opt ap)
         \<and> map_of ps ''property_name'' = map_option PStr pn
         \<and> map_of ps ''property_value'' = (if pv = PNone then None else Some pv)
         \<and> map_of ps ''property_type'' = map_option PStr pt
         \<and> map_of ps ''index'' = map_option PInt idx
         \<and> distinct (map fst ps)
         \<and> set (map fst ps) \<subseteq> {''action'', ''asset_path'', ''property_name'',
               ''property_value'', ''property_type'', ''index''}"
  using assms
  by (cases pn; cases pt; cases idx; cases "pv = PNone")
     (simp_all add: modify_scriptable_object_def Let_def)

lemma create_dispatch_keys:
  "\<exists>ps. create_scriptable_object send action n sf tn p =
           (send ''HandleCreateScriptableObject'' ps, [(''HandleCreateScriptableObject'', ps)])
         \<and> map_of ps ''action'' = Some (PStr (lower action))
         \<and> map_of ps ''name'' = map_option PStr n
         \<and> map_of ps ''subfolder'' = map_option PStr sf
         \<and> map_of ps ''type_name'' = map_option PStr tn
         \<and> map_of ps ''path'' = map_option PStr p
         \<and> distinct (map fst ps)
         \<and> set (map fst ps) \<subseteq> {''action'', ''name'', ''subfolder'', ''type_name'', ''path''}"
  by (cases n; cases sf; cases tn; cases p)
     (simp_all add: create_scriptable_object_def Let_def)

text \<open>The three set actions are spelled in lower case, so lower-casing leaves them alone.\<close>

lemma lower_set_actions:
  "action \<in> set set_actions \<Longrightarrow> lower action = action"
  by (auto simp: set_actions_def lower_def lower_char_def)

text \<open>The three checks that depend on the action, each with the checks before it passed.\<close>

lemma modify_property_name_check:
  assumes "truthy ap" and "action \<in> set property_actions" and "\<not> truthy pn"
  shows "modify_scriptable_object send action ap pn pv pt idx =
           (Inr (failure (required_for ''property_name'' action)), [])"
  using assms by (simp add: modify_scriptable_object_def)

lemma modify_property_value_check:
  assumes "truthy ap" and "truthy pn" and "action \<in> set set_actions"
  shows "modify_scriptable_object send action ap pn PNone pt idx =
           (Inr (failure (required_for ''property_value'' action)), [])"
  using assms by (simp add: modify_scriptable_object_def)

lemma modify_index_check:
  assumes "truthy ap" and "truthy pn" and "action \<in> set array_element_actions"
    and "action \<in> set set_actions \<longrightarrow> pv \<noteq> PNone"
  shows "modify_scriptable_object send action ap pn pv pt None =
           (Inr (failure (required_for ''index'' action)), [])"
  using assms by (auto simp add: modify_scriptable_object_def)

section \<open>Local validation of the Property Access tool\<close>

text \<open>
  C1. For each of the seven actions that need \<open>property_name\<close> (every action of the family
  but \<open>get_properties\<close> and \<open>get_info\<close>), a call whose \<open>property_name\<close> is absent returns
  \<open>{success: false, message: "property_name is required for action '<action>'", data: null}\<close>
  and hands nothing to the transport. The \<open>asset_path\<close> is one that passes the first check,
  which C2 places before this one.
\<close>

theorem property_name_required:
  assumes "action \<in> {''get_property'', ''set_property'', ''list_array_elements'',
             ''inspect_array_detailed'', ''add_array_element'', ''remove_array_element'',
             ''set_array_element''}"
    and "asset_path \<noteq> []"
  shows "modify_scriptable_object send action (Some asset_path) None property_value
           property_type index =
         (Inr (PDict [(''success'', PBool False),
                      (''message'', PStr (''property_name is required for action '' @
                                          [CHR 0x27] @ action @ [CHR 0x27])),
                      (''data'', PNone)]), [])"
proof -
  from assms(1) have "action \<in> set property_actions"
    by (simp add: property_actions_def)
  with assms(2) show ?thesis
    using modify_property_name_check [of "Some asset_path" action None]
    by (simp add: failure_def required_for_def)
qed

theorem property_name_required_witness:
  "modify_scriptable_object echo_transport ''list_array_elements'' (Some ''Assets/Data/X.asset'')
     None PNone None None =
   (Inr (PDict [(''success'', PBool False),
                (''message'', PStr (''property_name is required for action '' @
                                    [CHR 0x27] @ ''list_array_elements'' @ [CHR 0x27])),
                (''data'', PNone)]), [])"
  using property_name_required [of "''list_array_elements''" "''Assets/Data/X.asset''"
      echo_transport PNone None None]
  by simp

text \<open>
  C2. Whatever the other arguments are, a call with \<open>asset_path\<close> absent or empty returns
  \<open>{success: false, message: "asset_path is required", data: null}\<close> and hands nothing to
  the transport: the check comes before every check that depends on the action.
\<close>

theorem asset_path_required:
  "modify_scriptable_object send action None property_name property_value property_type index =
     (Inr (PDict [(''success'', PBool False), (''message'', PStr ''asset_path is required''),
                  (''data'', PNone)]), [])
   \<and> modify_scriptable_object send action (Some '''') property_name property_value property_type
       index =
     (Inr (PDict [(''success'', PBool False), (''message'', PStr ''asset_path is required''),
                  (''data'', PNone)]), [])"
  by (simp add: modify_scriptable_object_def failure_def)

text \<open>
  C3. The call \<open>set_property\<close> of \<open>speed\<close> to 5 on \<open>Assets/Data/X.asset\<close>, with
  \<open>property_type\<close> and \<open>index\<close> absent, passes validation; the transport is called once,
  with the command \<open>HandleModifyScriptableObject\<close> and the four keys \<open>action\<close>,
  \<open>asset_path\<close>, \<open>property_name\<close>, \<open>property_value\<close> and no other, and its answer is
  returned.
\<close>

theorem set_property_speed:
  "modify_scriptable_object send ''set_property'' (Some ''Assets/Data/X.asset'') (Some ''speed'')
     (PInt 5) None None =
   (send ''HandleModifyScriptableObject''
      [(''action'', PStr ''set_property''), (''asset_path'', PStr ''Assets/Data/X.asset''),
       (''property_name'', PStr ''speed''), (''property_value'', PInt 5)],
    [(''HandleModifyScriptableObject'',
      [(''action'', PStr ''set_property''), (''asset_path'', PStr ''Assets/Data/X.asset''),
       (''property_name'', PStr ''speed''), (''property_value'', PInt 5)])])"
  by (simp add: modify_scriptable_object_def Let_def property_actions_def set_actions_def
      array_element_actions_def lower_def lower_char_def)

text \<open>
  C4. The action is lower-cased where the dictionary is built, and only there: the three
  membership tests read the action as it was given. So \<open>Set_Property\<close> without a
  \<open>property_name\<close> is sent to the transport as \<open>set_property\<close>, while \<open>set_property\<close>
  with the same arguments is refused locally. The claim that an action differing only in
  case is validated like its lower-case form does not hold of the code.
\<close>

theorem mixed_case_action_not_validated:
  "modify_scriptable_object send ''Set_Property'' (Some ''Assets/Data/X.asset'') None PNone None
     None =
   (send ''HandleModifyScriptableObject''
      [(''action'', PStr ''set_property''), (''asset_path'', PStr ''Assets/Data/X.asset'')],
    [(''HandleModifyScriptableObject'',
      [(''action'', PStr ''set_property''), (''asset_path'', PStr ''Assets/Data/X.asset'')])])
   \<and> modify_scriptable_object send ''set_property'' (Some ''Assets/Data/X.asset'') None PNone
       None None =
   (Inr (PDict [(''success'', PBool False),
                (''message'', PStr (''property_name is required for action '' @
                                    [CHR 0x27] @ ''set_property'' @ [CHR 0x27])),
                (''data'', PNone)]), [])"
  by (simp add: modify_scriptable_object_def Let_def property_actions_def set_actions_def
      array_element_actions_def lower_set_property failure_def required_for_def)

text \<open>
  C5. The checks that depend on the action come in the order \<open>property_value\<close>, then
  \<open>index\<close>, and each returns its own message without a transport call. With the earlier
  checks passed: a \<open>set_property\<close>, \<open>add_array_element\<close> or \<open>set_array_element\<close> call
  without a \<open>property_value\<close> returns
  \<open>"property_value is required for action '<action>'"\<close>; a \<open>remove_array_element\<close> or
  \<open>set_array_element\<close> call without an \<open>index\<close> returns
  \<open>"index is required for action '<action>'"\<close>; and \<open>remove_array_element\<close> on property
  \<open>lines\<close> of asset \<open>A\<close> without an index returns
  \<open>"index is required for action 'remove_array_element'"\<close>.
\<close>

theorem cascading_checks:
  "(action \<in> {''set_property'', ''add_array_element'', ''set_array_element''} \<and>
      asset_path \<noteq> [] \<and> property_name \<noteq> [] \<longrightarrow>
      modify_scriptable_object send action (Some asset_path) (Some property_name) PNone
        property_type index =
      (Inr (PDict [(''success'', PBool False),
                   (''message'', PStr (''property_value is required for action '' @
                                       [CHR 0x27] @ action @ [CHR 0x27])),
                   (''data'', PNone)]), []))
   \<and> (action \<in> {''remove_array_element'', ''set_array_element''} \<and>
      asset_path \<noteq> [] \<and> property_name \<noteq> [] \<and>
      (action = ''set_array_element'' \<longrightarrow> property_value \<noteq> PNone) \<longrightarrow>
      modify_scriptable_object send action (Some asset_path) (Some property_name) property_value
        property_type None =
      (Inr (PDict [(''success'', PBool False),
                   (''message'', PStr (''index is required for action '' @
                                       [CHR 0x27] @ action @ [CHR 0x27])),
                   (''data'', PNone)]), []))
   \<and> modify_scriptable_object send ''remove_array_element'' (Some ''A'') (Some ''lines'')
        property_value property_type None =
      (Inr (PDict [(''success'', PBool False),
                   (''message'', PStr (''index is required for action '' @
                                       [CHR 0x27] @ ''remove_array_element'' @ [CHR 0x27])),
                   (''data'', PNone)]), [])"
proof (intro conjI impI)
  assume a: "action \<in> {''set_property'', ''add_array_element'', ''set_array_element''} \<and>
      asset_path \<noteq> [] \<and> property_name \<noteq> []"
  then have "action \<in> set set_actions"
    by (simp add: set_actions_def)
  with a show "modify_scriptable_object send action (Some asset_path) (Some property_name) PNone
        property_type index =
      (Inr (PDict [(''success'', PBool False),
                   (''message'', PStr (''property_value is required for action '' @
                                       [CHR 0x27] @ action @ [CHR 0x27])),
                   (''data'', PNone)]), [])"
    using modify_property_value_check [of "Some asset_path" "Some property_name" action]
    by (simp add: failure_def required_for_def)
next
  assume b: "action \<in> {''remove_array_element'', ''set_array_element''} \<and>
      asset_path \<noteq> [] \<and> property_name \<noteq> [] \<and>
      (action = ''set_array_element'' \<longrightarrow> property_value \<noteq> PNone)"
  then have m: "action \<in> set array_element_actions"
    by (simp add: array_element_actions_def)
  from b have v: "action \<in> set set_actions \<longrightarrow> property_value \<noteq> PNone"
    by (auto simp: set_actions_def)
  from b m v show "modify_scriptable_object send action (Some asset_path) (Some property_name)
        property_value property_type None =
      (Inr (PDict [(''success'', PBool False),
                   (''message'', PStr (''index is required for action '' @
                                       [CHR 0x27] @ action @ [CHR 0x27])),
                   (''data'', PNone)]), [])"
    using modify_index_check [of "Some asset_path" "Some property_name" action property_value]
    by (simp add: failure_def required_for_def)
next
  have m: "''remove_array_element'' \<in> set array_element_actions"
    by (simp add: array_element_actions_def)
  have v: "''remove_array_element'' \<in> set set_actions \<longrightarrow> property_value \<noteq> PNone"
    by (simp add: set_actions_def)
  show "modify_scriptable_object send ''remove_array_element'' (Some ''A'') (Some ''lines'')
        property_value property_type None =
      (Inr (PDict [(''success'', PBool False),
                   (''message'', PStr (''index is required for action '' @
                                       [CHR 0x27] @ ''remove_array_element'' @ [CHR 0x27])),
                   (''data'', PNone)]), [])"
    using modify_index_check [OF _ _ m v, of "Some ''A''" "Some ''lines''"]
    by (simp add: failure_def required_for_def)
qed

theorem cascading_checks_witness:
  "modify_scriptable_object echo_transport ''add_array_element'' (Some ''A'') (Some ''lines'')
     PNone None (Some 2) =
   (Inr (PDict [(''success'', PBool False),
                (''message'', PStr (''property_value is required for action '' @
                                    [CHR 0x27] @ ''add_array_element'' @ [CHR 0x27])),
                (''data'', PNone)]), [])
   \<and> modify_scriptable_object echo_transport ''set_array_element'' (Some ''A'') (Some ''lines'')
       (PStr ''hello'') None None =
   (Inr (PDict [(''success'', PBool False),
                (''message'', PStr (''index is required for action '' @
                                    [CHR 0x27] @ ''set_array_element'' @ [CHR 0x27])),
                (''data'', PNone)]), [])"
  using cascading_checks [of "''add_array_element''" "''A''" "''lines''" echo_transport None
      "Some 2" "PStr ''hello''"]
    cascading_checks [of "''set_array_element''" "''A''" "''lines''" echo_transport None
      None "PStr ''hello''"]
  by simp

text \<open>
  C6, as stated: a required field that is supplied but empty is treated as missing. It
  fails for \<open>property_value\<close>, which is tested with \<^verbatim>\<open>is None\<close>: \<open>set_property\<close> with
  the empty string as value passes validation and is sent.
\<close>

theorem empty_property_value_counterexample:
  "modify_scriptable_object echo_transport ''set_property'' (Some ''Assets/Data/X.asset'')
     (Some ''speed'') (PStr '''') None None =
   (Inr (PDict [(''success'', PBool True), (''message'', PStr ''HandleModifyScriptableObject''),
                (''data'', PDict [(''action'', PStr ''set_property''),
                                  (''asset_path'', PStr ''Assets/Data/X.asset''),
                                  (''property_name'', PStr ''speed''),
                                  (''property_value'', PStr '''')])]),
    [(''HandleModifyScriptableObject'',
      [(''action'', PStr ''set_property''), (''asset_path'', PStr ''Assets/Data/X.asset''),
       (''property_name'', PStr ''speed''), (''property_value'', PStr '''')])])"
  by (simp add: modify_scriptable_object_def Let_def property_actions_def set_actions_def
      array_element_actions_def echo_transport_def lower_def lower_char_def)

text \<open>
  C6, amended. The fields tested by truth value, \<open>asset_path\<close> and \<open>property_name\<close>, are
  treated as missing when they are the empty string: the call returns the local failure
  envelope of that field and nothing reaches the transport. A \<open>property_value\<close> is missing
  exactly when it is \<^verbatim>\<open>None\<close>: for the three set actions with the other checks passed,
  \<^verbatim>\<open>None\<close> returns the \<open>property_value\<close> envelope, and every other value (the empty
  string, an empty list or dictionary, 0, \<open>False\<close>) satisfies the requirement and is sent
  under the key \<open>property_value\<close>, in a dictionary that holds the action, the asset path,
  the property name, the optional \<open>property_type\<close> and \<open>index\<close>, and nothing else.
\<close>

theorem empty_fields:
  "modify_scriptable_object send action (Some '''') property_name property_value property_type
     index =
     (Inr (PDict [(''success'', PBool False), (''message'', PStr ''asset_path is required''),
                  (''data'', PNone)]), [])
   \<and> (action \<in> {''get_property'', ''set_property'', ''list_array_elements'',
         ''inspect_array_detailed'', ''add_array_element'', ''remove_array_element'',
         ''set_array_element''} \<and> asset_path \<noteq> [] \<longrightarrow>
      modify_scriptable_object send action (Some asset_path) (Some '''') property_value
        property_type index =
      (Inr (PDict [(''success'', PBool False),
                   (''message'', PStr (''property_name is required for action '' @
                                       [CHR 0x27] @ action @ [CHR 0x27])),
                   (''data'', PNone)]), []))
   \<and> (action \<in> {''set_property'', ''add_array_element'', ''set_array_element''} \<and>
      asset_path \<noteq> [] \<and> name \<noteq> [] \<and> property_value \<noteq> PNone \<and>
      (action = ''set_array_element'' \<longrightarrow> index \<noteq> None) \<longrightarrow>
      (\<exists>ps. modify_scriptable_object send action (Some asset_path) (Some name) property_value
              property_type index =
            (send ''HandleModifyScriptableObject'' ps, [(''HandleModifyScriptableObject'', ps)])
          \<and> map_of ps ''action'' = Some (PStr action)
          \<and> map_of ps ''asset_path'' = Some (PStr asset_path)
          \<and> map_of ps ''property_name'' = Some (PStr name)
          \<and> map_of ps ''property_value'' = Some property_value
          \<and> map_of ps ''property_type'' = map_option PStr property_type
          \<and> map_of ps ''index'' = map_option PInt index
          \<and> distinct (map fst ps)
          \<and> set (map fst ps) \<subseteq> {''action'', ''asset_path'', ''property_name'',
                ''property_value'', ''property_type'', ''index''}))
   \<and> (action \<in> {''set_property'', ''add_array_element'', ''set_array_element''} \<and>
      asset_path \<noteq> [] \<and> name \<noteq> [] \<longrightarrow>
      modify_scriptable_object send action (Some asset_path) (Some name) PNone property_type
        index =
      (Inr (PDict [(''success'', PBool False),
                   (''message'', PStr (''property_value is required for action '' @
                                       [CHR 0x27] @ action @ [CHR 0x27])),
                   (''data'', PNone)]), []))"
proof (intro conjI impI)
  show "modify_scriptable_object send action (Some '''') property_name property_value
     property_type index =
     (Inr (PDict [(''success'', PBool False), (''message'', PStr ''asset_path is required''),
                  (''data'', PNone)]), [])"
    by (simp add: modify_scriptable_object_def failure_def)
next
  assume a: "action \<in> {''get_property'', ''set_property'', ''list_array_elements'',
         ''inspect_array_detailed'', ''add_array_element'', ''remove_array_element'',
         ''set_array_element''} \<and> asset_path \<noteq> []"
  then have "action \<in> set property_actions"
    by (simp add: property_actions_def)
  with a show "modify_scriptable_object send action (Some asset_path) (Some '''') property_value
        property_type index =
      (Inr (PDict [(''success'', PBool False),
                   (''message'', PStr (''property_name is required for action '' @
                                       [CHR 0x27] @ action @ [CHR 0x27])),
                   (''data'', PNone)]), [])"
    using modify_property_name_check [of "Some asset_path" action "Some ''''"]
    by (simp add: failure_def required_for_def)
next
  assume b: "action \<in> {''set_property'', ''add_array_element'', ''set_array_element''} \<and>
      asset_path \<noteq> [] \<and> name \<noteq> [] \<and> property_value \<noteq> PNone \<and>
      (action = ''set_array_element'' \<longrightarrow> index \<noteq> None)"
  then have i: "action \<in> set array_element_actions \<longrightarrow> index \<noteq> None"
    by (auto simp: array_element_actions_def)
  from b have "action \<in> set set_actions"
    by (simp add: set_actions_def)
  then have l: "lower action = action"
    by (rule lower_set_actions)
  have a: "truthy (Some asset_path)" and n: "action \<in> set property_actions \<longrightarrow> truthy (Some name)"
    and v: "action \<in> set set_actions \<longrightarrow> property_value \<noteq> PNone"
    using b by simp_all
  from modify_dispatch_keys [OF a n v i, of send property_type] obtain ps where
    ps: "modify_scriptable_object send action (Some asset_path) (Some name) property_value
              property_type index =
            (send ''HandleModifyScriptableObject'' ps, [(''HandleModifyScriptableObject'', ps)])"
      "map_of ps ''action'' = Some (PStr (lower action))"
      "map_of ps ''asset_path'' = Some (str_opt (Some asset_path))"
      "map_of ps ''property_name'' = map_option PStr (Some name)"
      "map_of ps ''property_value'' = (if property_value = PNone then None else Some property_value)"
      "map_of ps ''property_type'' = map_option PStr property_type"
      "map_of ps ''index'' = map_option PInt index"
      "distinct (map fst ps)"
      "set (map fst ps) \<subseteq> {''action'', ''asset_path'', ''property_name'',
                ''property_value'', ''property_type'', ''index''}"
    by blast
  show "\<exists>ps. modify_scriptable_object send action (Some asset_path) (Some name) property_value
              property_type index =
            (send ''HandleModifyScriptableObject'' ps, [(''HandleModifyScriptableObject'', ps)])
          \<and> map_of ps ''action'' = Some (PStr action)
          \<and> map_of ps ''asset_path'' = Some (PStr asset_path)
          \<and> map_of ps ''property_name'' = Some (PStr name)
          \<and> map_of ps ''property_value'' = Some property_value
          \<and> map_of ps ''property_type'' = map_option PStr property_type
          \<and> map_of ps ''index'' = map_option PInt index
          \<and> distinct (map fst ps)
          \<and> set (map fst ps) \<subseteq> {''action'', ''asset_path'', ''property_name'',
                ''property_value'', ''property_type'', ''index''}"
    using ps l b by (intro exI [of _ ps]) simp
next
  assume c: "action \<in> {''set_property'', ''add_array_element'', ''set_array_element''} \<and>
      asset_path \<noteq> [] \<and> name \<noteq> []"
  then have "action \<in> set set_actions"
    by (simp add: set_actions_def)
  with c show "modify_scriptable_object send action (Some asset_path) (Some name) PNone
        property_type index =
      (Inr (PDict [(''success'', PBool False),
                   (''message'', PStr (''property_value is required for action '' @
                                       [CHR 0x27] @ action @ [CHR 0x27])),
                   (''data'', PNone)]), [])"
    using modify_property_value_check [of "Some asset_path" "Some name" action]
    by (simp add: failure_def required_for_def)
qed

theorem empty_fields_witness:
  "modify_scriptable_object echo_transport ''get_property'' (Some ''A'') (Some '''') PNone None None =
     (Inr (PDict [(''success'', PBool False),
                  (''message'', PStr (''property_name is required for action '' @
                                      [CHR 0x27] @ ''get_property'' @ [CHR 0x27])),
                  (''data'', PNone)]), [])
   \<and> modify_scriptable_object echo_transport ''add_array_element'' (Some ''A'') (Some ''lines'')
       (PStr '''') None None =
     (echo_transport ''HandleModifyScriptableObject''
        [(''action'', PStr ''add_array_element''), (''asset_path'', PStr ''A''),
         (''property_name'', PStr ''lines''), (''property_value'', PStr '''')],
      [(''HandleModifyScriptableObject'',
        [(''action'', PStr ''add_array_element''), (''asset_path'', PStr ''A''),
         (''property_name'', PStr ''lines''), (''property_value'', PStr '''')])])
   \<and> modify_scriptable_object echo_transport ''set_array_element'' (Some ''A'') (Some ''lines'')
       (PList []) None (Some 0) =
     (echo_transport ''HandleModifyScriptableObject''
        [(''action'', PStr ''set_array_element''), (''asset_path'', PStr ''A''),
         (''property_name'', PStr ''lines''), (''property_value'', PList []),
         (''index'', PInt 0)],
      [(''HandleModifyScriptableObject'',
        [(''action'', PStr ''set_array_element''), (''asset_path'', PStr ''A''),
         (''property_name'', PStr ''lines''), (''property_value'', PList []),
         (''index'', PInt 0)])])"
  using empty_fields [of echo_transport "''get_property''" None PNone None None "''A''" "''A''"]
    empty_fields [of echo_transport "''add_array_element''" None "PStr ''''" None None "''A''"
      "''lines''"]
    empty_fields [of echo_transport "''set_array_element''" None "PList []" None "Some 0" "''A''"
      "''lines''"]
  by (simp add: modify_scriptable_object_def Let_def lower_def lower_char_def
      property_actions_def set_actions_def array_element_actions_def)




text \<open>
  C8. A call of the Object Creation tool with \<open>name\<close> absent, for every action and so for
  \<open>create_ai_character\<close>, \<open>create_ai_interaction\<close> and \<open>create_custom\<close>, produces no
  local failure: the transport is called once with \<open>HandleCreateScriptableObject\<close> and its
  answer is returned. The dictionary sent holds the lower-cased action (for the three create
  actions, the action itself), each of \<open>subfolder\<close>, \<open>type_name\<close> and \<open>path\<close> exactly
  when it was supplied, no \<open>name\<close> key and no other key. For \<open>create_custom\<close> with
  type name \<open>Foo\<close> and path \<open>Assets/Foo.asset\<close> the dictionary is exactly
  \<open>{action: "create_custom", type_name: "Foo", path: "Assets/Foo.asset"}\<close>.
\<close>

theorem create_without_name:
  "(\<exists>ps. create_scriptable_object send action None subfolder type_name path =
           (send ''HandleCreateScriptableObject'' ps, [(''HandleCreateScriptableObject'', ps)])
         \<and> map_of ps ''action'' = Some (PStr (lower action))
         \<and> map_of ps ''name'' = None
         \<and> map_of ps ''subfolder'' = map_option PStr subfolder
         \<and> map_of ps ''type_name'' = map_option PStr type_name
         \<and> map_of ps ''path'' = map_option PStr path
         \<and> distinct (map fst ps)
         \<and> set (map fst ps) \<subseteq> {''action'', ''subfolder'', ''type_name'', ''path''})
   \<and> lower ''create_ai_character'' = ''create_ai_character''
   \<and> lower ''create_ai_interaction'' = ''create_ai_interaction''
   \<and> lower ''create_custom'' = ''create_custom''
   \<and> create_scriptable_object send ''create_custom'' None None (Some ''Foo'')
       (Some ''Assets/Foo.asset'') =
     (send ''HandleCreateScriptableObject''
        [(''action'', PStr ''create_custom''), (''type_name'', PStr ''Foo''),
         (''path'', PStr ''Assets/Foo.asset'')],
      [(''HandleCreateScriptableObject'',
        [(''action'', PStr ''create_custom''), (''type_name'', PStr ''Foo''),
         (''path'', PStr ''Assets/Foo.asset'')])])"
proof (intro conjI)
  from create_dispatch_keys [of send action None subfolder type_name path] obtain ps where
    ps: "create_scriptable_object send action None subfolder type_name path =
           (send ''HandleCreateScriptableObject'' ps, [(''HandleCreateScriptableObject'', ps)])"
      "map_of ps ''action'' = Some (PStr (lower action))"
      "map_of ps ''name'' = map_option PStr None"
      "map_of ps ''subfolder'' = map_option PStr subfolder"
      "map_of ps ''type_name'' = map_option PStr type_name"
      "map_of ps ''path'' = map_option PStr path"
      "distinct (map fst ps)"
      "set (map fst ps) \<subseteq> {''action'', ''name'', ''subfolder'', ''type_name'', ''path''}"
    by blast
  from ps(3) have "''name'' \<notin> set (map fst ps)"
    by (simp add: map_of_eq_None_iff)
  with ps(8) have k: "set (map fst ps) \<subseteq> {''action'', ''subfolder'', ''type_name'', ''path''}"
    by blast
  show "\<exists>ps. create_scriptable_object send action None subfolder type_name path =
           (send ''HandleCreateScriptableObject'' ps, [(''HandleCreateScriptableObject'', ps)])
         \<and> map_of ps ''action'' = Some (PStr (lower action))
         \<and> map_of ps ''name'' = None
         \<and> map_of ps ''subfolder'' = map_option PStr subfolder
         \<and> map_of ps ''type_name'' = map_option PStr type_name
         \<and> map_of ps ''path'' = map_option PStr path
         \<and> distinct (map fst ps)
         \<and> set (map fst ps) \<subseteq> {''action'', ''subfolder'', ''type_name'', ''path''}"
    using ps k by (intro exI [of _ ps]) simp
next
  show "lower ''create_ai_character'' = ''create_ai_character''"
    by (simp add: lower_def lower_char_def)
next
  show "lower ''create_ai_interaction'' = ''create_ai_interaction''"
    by (simp add: lower_def lower_char_def)
next
  show "lower ''create_custom'' = ''create_custom''"
    by (simp add: lower_def lower_char_def)
next
  show "create_scriptable_object send ''create_custom'' None None (Some ''Foo'')
       (Some ''Assets/Foo.asset'') =
     (send ''HandleCreateScriptableObject''
        [(''action'', PStr ''create_custom''), (''type_name'', PStr ''Foo''),
         (''path'', PStr ''Assets/Foo.asset'')],
      [(''HandleCreateScriptableObject'',
        [(''action'', PStr ''create_custom''), (''type_name'', PStr ''Foo''),
         (''path'', PStr ''Assets/Foo.asset'')])])"
    by (simp add: create_scriptable_object_def Let_def lower_def lower_char_def)
qed

text \<open>
  C9. In both tools, a call that passes local validation returns exactly what the
  transport answered (a value or an exception) to the one command it was handed: nothing
  is wrapped, changed or sent twice. The Object Creation tool has no validation to pass;
  for the Property Access tool the four checks are spelled out.
\<close>

theorem transport_result_returned:
  "(\<exists>ps. create_scriptable_object send action name subfolder type_name path =
           (send ''HandleCreateScriptableObject'' ps, [(''HandleCreateScriptableObject'', ps)]))
   \<and> (asset_path \<noteq> [] \<and>
      (maction \<in> {''get_property'', ''set_property'', ''list_array_elements'',
         ''inspect_array_detailed'', ''add_array_element'', ''remove_array_element'',
         ''set_array_element''} \<longrightarrow> property_name \<noteq> None \<and> property_name \<noteq> Some '''') \<and>
      (maction \<in> {''set_property'', ''add_array_element'', ''set_array_element''} \<longrightarrow>
         property_value \<noteq> PNone) \<and>
      (maction \<in> {''remove_array_element'', ''set_array_element''} \<longrightarrow> index \<noteq> None) \<longrightarrow>
      (\<exists>ps. modify_scriptable_object send maction (Some asset_path) property_name property_value
              property_type index =
            (send ''HandleModifyScriptableObject'' ps, [(''HandleModifyScriptableObject'', ps)])))"
proof (intro conjI impI)
  show "\<exists>ps. create_scriptable_object send action name subfolder type_name path =
           (send ''HandleCreateScriptableObject'' ps, [(''HandleCreateScriptableObject'', ps)])"
    using create_dispatch [of send action name subfolder type_name path] by auto
next
  assume v: "asset_path \<noteq> [] \<and>
      (maction \<in> {''get_property'', ''set_property'', ''list_array_elements'',
         ''inspect_array_detailed'', ''add_array_element'', ''remove_array_element'',
         ''set_array_element''} \<longrightarrow> property_name \<noteq> None \<and> property_name \<noteq> Some '''') \<and>
      (maction \<in> {''set_property'', ''add_array_element'', ''set_array_element''} \<longrightarrow>
         property_value \<noteq> PNone) \<and>
      (maction \<in> {''remove_array_element'', ''set_array_element''} \<longrightarrow> index \<noteq> None)"
  have a: "truthy (Some asset_path)"
    using v by simp
  have n: "maction \<in> set property_actions \<longrightarrow> truthy property_name"
    using v by (cases property_name) (simp_all add: property_actions_def)
  have p: "maction \<in> set set_actions \<longrightarrow> property_value \<noteq> PNone"
    using v by (simp add: set_actions_def)
  have i: "maction \<in> set array_element_actions \<longrightarrow> index \<noteq> None"
    using v by (simp add: array_element_actions_def)
  show "\<exists>ps. modify_scriptable_object send maction (Some asset_path) property_name
              property_value property_type index =
            (send ''HandleModifyScriptableObject'' ps, [(''HandleModifyScriptableObject'', ps)])"
    using modify_dispatch [OF a n p i, of send property_type] by auto
qed

theorem transport_result_returned_witness:
  "create_scriptable_object refusing_transport ''list_types'' None None None None =
     (Inl (Exception ''Could not connect to Unity''),
      [(''HandleCreateScriptableObject'', [(''action'', PStr ''list_types'')])])
   \<and> modify_scriptable_object echo_transport ''get_info'' (Some ''A'') None PNone None None =
     (Inr (PDict [(''success'', PBool True), (''message'', PStr ''HandleModifyScriptableObject''),
                (''data'', PDict [(''action'', PStr ''get_info''), (''asset_path'', PStr ''A'')])]),
      [(''HandleModifyScriptableObject'',
        [(''action'', PStr ''get_info''), (''asset_path'', PStr ''A'')])])"
  using transport_result_returned [of refusing_transport "''list_types''" None None None None
      "''A''" "''get_info''" None PNone None None]
    transport_result_returned [of echo_transport "''list_types''" None None None None
      "''A''" "''get_info''" None PNone None None]
  by (simp add: create_scriptable_object_def modify_scriptable_object_def Let_def lower_def
      lower_char_def property_actions_def set_actions_def array_element_actions_def
      echo_transport_def refusing_transport_def)

text \<open>
  C10. For \<open>set_property\<close>, \<open>add_array_element\<close> and \<open>set_array_element\<close>, a
  \<open>property_value\<close> of \<open>False\<close> or of the integer 0 satisfies the requirement (absence is
  \<^verbatim>\<open>None\<close>, not a false truth value): with the other checks passed, the call reaches the
  transport and the dictionary sent holds that value under the key \<open>property_value\<close>.
\<close>

theorem falsy_property_value_sent:
  assumes "action \<in> {''set_property'', ''add_array_element'', ''set_array_element''}"
    and "property_value = PBool False \<or> property_value = PInt 0"
    and "asset_path \<noteq> []" and "property_name \<noteq> []"
    and "action = ''set_array_element'' \<longrightarrow> index \<noteq> None"
  shows "\<exists>ps. modify_scriptable_object send action (Some asset_path) (Some property_name)
               property_value property_type index =
           (send ''HandleModifyScriptableObject'' ps, [(''HandleModifyScriptableObject'', ps)])
         \<and> map_of ps ''property_value'' = Some property_value"
proof -
  have v: "property_value \<noteq> PNone"
    using assms(2) by auto
  have i: "action \<in> set array_element_actions \<longrightarrow> index \<noteq> None"
    using assms(1,5) by (auto simp: array_element_actions_def)
  show ?thesis
    using modify_dispatch [of "Some asset_path" action "Some property_name" property_value index
        send property_type, OF _ _ _ i] assms(3,4) v
    by auto
qed

theorem falsy_property_value_sent_witness:
  "modify_scriptable_object echo_transport ''set_array_element'' (Some ''A'') (Some ''flags'')
     (PBool False) None (Some 0) =
   (echo_transport ''HandleModifyScriptableObject''
      [(''action'', PStr ''set_array_element''), (''asset_path'', PStr ''A''),
       (''property_name'', PStr ''flags''), (''property_value'', PBool False),
       (''index'', PInt 0)],
    [(''HandleModifyScriptableObject'',
      [(''action'', PStr ''set_array_element''), (''asset_path'', PStr ''A''),
       (''property_name'', PStr ''flags''), (''property_value'', PBool False),
       (''index'', PInt 0)])])"
  using falsy_property_value_sent [of "''set_array_element''" "PBool False" "''A''" "''flags''"
      "Some 0" echo_transport None]
  by (simp add: modify_scriptable_object_def Let_def lower_def lower_char_def
      property_actions_def set_actions_def array_element_actions_def)

end
